theory Spec2Isabelle
  imports Complex_Main
begin

section \<open>Wallet monitoring: Listen, TransactionMonitor and WalletUtils\<close>

text \<open>
  The three classes are embedded as functions on explicit state. Each method takes the
  objects it mutates and returns them updated, together with the lines it writes to the
  console (the console is write-only, so a method returns the lines it appends).
  Every \<^verbatim>\<open>throw\<close> of the source is a value \<open>Inl e\<close> inside the method; a
  \<^verbatim>\<open>try { ... } catch (error) { ... }\<close> is a function \<open>f_try\<close> for the body and a
  function \<open>f\<close> that handles \<open>Inl\<close> the way the catch block does.

  An \<^verbatim>\<open>async\<close> method is embedded as one atomic step: the interleaving of two
  methods at their \<^verbatim>\<open>await\<close> points is not modelled. Within one step the
  environment answers the same question the same way and \<^verbatim>\<open>Date.now()\<close> has one
  value; different steps may be given different environments and times.
\<close>

subsection \<open>Values\<close>

type_synonym address = string

datatype js_error =
    InvalidPublicKey
  | ReferenceError string
  | TypeError
  | ChainError string

datatype console_entry =
    ConsoleLog string
  | ConsoleError string js_error

text \<open>A JavaScript number that results from arithmetic with \<^verbatim>\<open>undefined\<close> is NaN.\<close>

datatype js_number = Num real | NaN

fun js_gt :: "js_number \<Rightarrow> real \<Rightarrow> bool" where
  "js_gt (Num x) y = (x > y)"
| "js_gt NaN y = False"

text \<open>
  Constants of the libraries the sources import. \<^verbatim>\<open>LAMPORTS_PER_SOL\<close> is the divisor
  that listen.js writes as \<^verbatim>\<open>1e9\<close>; the two program identifiers are the ones that
  \<^verbatim>\<open>getTransactionType\<close> names as Token Program and System Program.
\<close>

definition LAMPORTS_PER_SOL :: real where
  "LAMPORTS_PER_SOL = 1000000000"

definition TOKEN_PROGRAM_ID :: string where
  "TOKEN_PROGRAM_ID = ''TokenkegQfeZyiNwAJbNbGKPFXCWuBvf9Ss623VQ5DA''"

definition SYSTEM_PROGRAM_ID :: string where
  "SYSTEM_PROGRAM_ID = ''11111111111111111111111111111111''"

subsection \<open>The environment: chain client and global scope\<close>

text \<open>
  What \<^verbatim>\<open>connection.getAccountInfo\<close> resolves to when it is not null: the owner
  program and the balance in lamports.
\<close>

record account_info =
  ai_owner :: string
  ai_lamports :: int

text \<open>
  A parsed transaction: the program identifier of each instruction of
  \<^verbatim>\<open>tx.transaction.message.instructions\<close>, and \<^verbatim>\<open>tx.meta\<close>, which may be null.
\<close>

record transaction_meta =
  preBalances :: "int list"
  postBalances :: "int list"

record parsed_transaction =
  instructions :: "string list"
  meta :: "transaction_meta option"

text \<open>
  An element of the result of \<^verbatim>\<open>getParsedProgramAccounts\<close>: its data is either parsed,
  with \<^verbatim>\<open>account.account.data.parsed.info.owner\<close>, or a raw buffer, on which
  \<^verbatim>\<open>.parsed.info\<close> raises a TypeError.
\<close>

datatype token_account = ParsedAccount string | UnparsedAccount

text \<open>
  The chain client is an external collaborator and is a parameter of the model: for each
  call, whether it throws and otherwise what it returns. \<open>publicKeyAccepted a\<close> says that
  \<^verbatim>\<open>new PublicKey(a)\<close> does not throw. \<open>globalSystemProgram\<close> is what the free
  identifier \<^verbatim>\<open>SystemProgram\<close> of wallet-utils.js resolves to: the file's
  \<^verbatim>\<open>require\<close> lines bind \<^verbatim>\<open>PublicKey\<close>, \<^verbatim>\<open>LAMPORTS_PER_SOL\<close> and
  \<^verbatim>\<open>TOKEN_PROGRAM_ID\<close> only, so the identifier is looked up in the global scope,
  where it is either absent (\<open>None\<close>: evaluating it raises a ReferenceError) or an object
  whose \<^verbatim>\<open>programId\<close> is the given key.
\<close>

record env =
  publicKeyAccepted :: "string \<Rightarrow> bool"
  getAccountInfo :: "address \<Rightarrow> js_error + account_info option"
  getBalance :: "address \<Rightarrow> js_error + int"
  getParsedTransaction :: "string \<Rightarrow> js_error + parsed_transaction option"
  getParsedProgramAccounts :: "string \<Rightarrow> js_error + token_account list"
  onAccountChangeError :: "address \<Rightarrow> js_error option"
  onLogsError :: "address \<Rightarrow> js_error option"
  removeAccountChangeListenerError :: "nat \<Rightarrow> js_error option"
  removeOnLogsListenerError :: "nat \<Rightarrow> js_error option"
  globalSystemProgram :: "string option"

text \<open>
  The listeners that are live inside a \<^verbatim>\<open>Connection\<close>. A subscription call that
  does not throw returns the next client subscription id and registers the listener; a
  removal that does not throw unregisters it; a call that throws changes nothing.
\<close>

record chain_connection =
  nextClientSubscriptionId :: nat
  accountChangeListeners :: "nat set"
  logsListeners :: "nat set"

definition new_Connection :: chain_connection where
  "new_Connection =
     \<lparr>nextClientSubscriptionId = 0, accountChangeListeners = {}, logsListeners = {}\<rparr>"

definition onAccountChange ::
  "env \<Rightarrow> address \<Rightarrow> chain_connection \<Rightarrow> js_error + (nat \<times> chain_connection)" where
  "onAccountChange e a c =
     (case onAccountChangeError e a of
        Some err \<Rightarrow> Inl err
      | None \<Rightarrow>
          Inr (nextClientSubscriptionId c,
               c\<lparr>nextClientSubscriptionId := Suc (nextClientSubscriptionId c),
                 accountChangeListeners :=
                   insert (nextClientSubscriptionId c) (accountChangeListeners c)\<rparr>))"

definition onLogs ::
  "env \<Rightarrow> address \<Rightarrow> chain_connection \<Rightarrow> js_error + (nat \<times> chain_connection)" where
  "onLogs e a c =
     (case onLogsError e a of
        Some err \<Rightarrow> Inl err
      | None \<Rightarrow>
          Inr (nextClientSubscriptionId c,
               c\<lparr>nextClientSubscriptionId := Suc (nextClientSubscriptionId c),
                 logsListeners := insert (nextClientSubscriptionId c) (logsListeners c)\<rparr>))"

definition removeAccountChangeListener ::
  "env \<Rightarrow> nat \<Rightarrow> chain_connection \<Rightarrow> js_error + chain_connection" where
  "removeAccountChangeListener e h c =
     (case removeAccountChangeListenerError e h of
        Some err \<Rightarrow> Inl err
      | None \<Rightarrow> Inr (c\<lparr>accountChangeListeners := accountChangeListeners c - {h}\<rparr>))"

definition removeOnLogsListener ::
  "env \<Rightarrow> nat \<Rightarrow> chain_connection \<Rightarrow> js_error + chain_connection" where
  "removeOnLogsListener e h c =
     (case removeOnLogsListenerError e h of
        Some err \<Rightarrow> Inl err
      | None \<Rightarrow> Inr (c\<lparr>logsListeners := logsListeners c - {h}\<rparr>))"

subsection \<open>JavaScript Set, in insertion order\<close>

definition Set_add :: "'a \<Rightarrow> 'a list \<Rightarrow> 'a list" where
  "Set_add x xs = (if x \<in> set xs then xs else xs @ [x])"

definition Set_delete :: "'a \<Rightarrow> 'a list \<Rightarrow> 'a list" where
  "Set_delete x xs = removeAll x xs"

subsection \<open>WalletUtils (utils/wallet-utils.js)\<close>

text \<open>
  The body of the try block of \<^verbatim>\<open>isValidWallet\<close>. In
  \<^verbatim>\<open>accountInfo.owner.equals(SystemProgram.programId)\<close> the argument is evaluated
  before the call, so an unbound \<^verbatim>\<open>SystemProgram\<close> raises whatever the owner is.
  The product \<^verbatim>\<open>0.01 * LAMPORTS_PER_SOL\<close> is exactly ten million in double precision
  as it is over the reals.
\<close>

definition isValidWallet_try :: "env \<Rightarrow> address \<Rightarrow> js_error + bool" where
  "isValidWallet_try e a =
     (if \<not> publicKeyAccepted e a then Inl InvalidPublicKey
      else case getAccountInfo e a of
        Inl err \<Rightarrow> Inl err
      | Inr None \<Rightarrow> Inr False
      | Inr (Some accountInfo) \<Rightarrow>
          (case globalSystemProgram e of
             None \<Rightarrow> Inl (ReferenceError ''SystemProgram'')
           | Some programId \<Rightarrow>
               if ai_owner accountInfo = programId then
                 (case getBalance e a of
                    Inl err \<Rightarrow> Inl err
                  | Inr balance \<Rightarrow> Inr (real_of_int balance > 0.01 * LAMPORTS_PER_SOL))
               else Inr False))"

definition isValidWallet :: "env \<Rightarrow> address \<Rightarrow> bool" where
  "isValidWallet e a = (case isValidWallet_try e a of Inl err \<Rightarrow> False | Inr b \<Rightarrow> b)"

text \<open>
  The loop of \<^verbatim>\<open>calculateTransactionValue\<close> over the indices of
  \<^verbatim>\<open>preBalances\<close>. Past the end of \<^verbatim>\<open>postBalances\<close> the element is
  \<^verbatim>\<open>undefined\<close>, the difference is NaN, and the sum stays NaN. The sum is taken
  over the reals: the rounding of double precision is not modelled.
\<close>

fun sumBalanceChanges :: "int list \<Rightarrow> int list \<Rightarrow> real \<Rightarrow> js_number" where
  "sumBalanceChanges [] post v = Num v"
| "sumBalanceChanges (p # pre) [] v = NaN"
| "sumBalanceChanges (p # pre) (q # post) v =
     sumBalanceChanges pre post (v + \<bar>(real_of_int q - real_of_int p) / LAMPORTS_PER_SOL\<bar>)"

definition calculateTransactionValue :: "parsed_transaction \<Rightarrow> js_number" where
  "calculateTransactionValue tx =
     (case meta tx of
        None \<Rightarrow> Num 0
      | Some m \<Rightarrow> sumBalanceChanges (preBalances m) (postBalances m) 0)"

subsection \<open>TransactionMonitor (services/transaction-monitor.js)\<close>

record subscription_ids =
  account :: nat
  signature :: nat

record transaction_monitor =
  connection :: chain_connection
  monitoredWallets :: "address list"
  subscriptions :: "address \<rightharpoonup> subscription_ids"
  lastActivity :: "address \<rightharpoonup> int"

definition new_TransactionMonitor :: transaction_monitor where
  "new_TransactionMonitor =
     \<lparr>connection = new_Connection, monitoredWallets = [],
      subscriptions = Map.empty, lastActivity = Map.empty\<rparr>"

text \<open>
  The try block of \<^verbatim>\<open>startMonitoring\<close>. A throw carries the monitor as it is at
  that point: when \<^verbatim>\<open>onLogs\<close> throws, the account-change listener is already
  registered with the connection.
\<close>

definition startMonitoring_try ::
  "env \<Rightarrow> int \<Rightarrow> address \<Rightarrow> transaction_monitor \<Rightarrow>
     (js_error \<times> transaction_monitor) + (transaction_monitor \<times> console_entry list)" where
  "startMonitoring_try e now wallet m =
     (if \<not> publicKeyAccepted e wallet then Inl (InvalidPublicKey, m)
      else if wallet \<in> set (monitoredWallets m) then
        Inr (m, [ConsoleLog (''Already monitoring wallet: '' @ wallet)])
      else case onAccountChange e wallet (connection m) of
        Inl err \<Rightarrow> Inl (err, m)
      | Inr (accountSubscriptionId, c1) \<Rightarrow>
          (case onLogs e wallet c1 of
             Inl err \<Rightarrow> Inl (err, m\<lparr>connection := c1\<rparr>)
           | Inr (signatureSubscriptionId, c2) \<Rightarrow>
               Inr (m\<lparr>connection := c2,
                      subscriptions := (subscriptions m)(wallet \<mapsto>
                        \<lparr>account = accountSubscriptionId,
                         signature = signatureSubscriptionId\<rparr>),
                      monitoredWallets := Set_add wallet (monitoredWallets m),
                      lastActivity := (lastActivity m)(wallet \<mapsto> now)\<rparr>,
                    [ConsoleLog (''Started monitoring wallet: '' @ wallet)])))"

definition startMonitoring ::
  "env \<Rightarrow> int \<Rightarrow> address \<Rightarrow> transaction_monitor \<Rightarrow>
     transaction_monitor \<times> console_entry list" where
  "startMonitoring e now wallet m =
     (case startMonitoring_try e now wallet m of
        Inl (err, m') \<Rightarrow>
          (m', [ConsoleError (''Error starting monitoring for wallet '' @ wallet @ '':'') err])
      | Inr r \<Rightarrow> r)"

text \<open>The try block of \<^verbatim>\<open>stopMonitoring\<close>, and the method with its catch.\<close>

definition stopMonitoring_try ::
  "env \<Rightarrow> address \<Rightarrow> transaction_monitor \<Rightarrow>
     (js_error \<times> transaction_monitor) + (transaction_monitor \<times> console_entry list)" where
  "stopMonitoring_try e wallet m =
     (case subscriptions m wallet of
        None \<Rightarrow> Inr (m, [])
      | Some subscriptionIds \<Rightarrow>
          (case removeAccountChangeListener e (account subscriptionIds) (connection m) of
             Inl err \<Rightarrow> Inl (err, m)
           | Inr c1 \<Rightarrow>
               (case removeOnLogsListener e (signature subscriptionIds) c1 of
                  Inl err \<Rightarrow> Inl (err, m\<lparr>connection := c1\<rparr>)
                | Inr c2 \<Rightarrow>
                    Inr (m\<lparr>connection := c2,
                           subscriptions := (subscriptions m)(wallet := None),
                           monitoredWallets := Set_delete wallet (monitoredWallets m),
                           lastActivity := (lastActivity m)(wallet := None)\<rparr>,
                         [ConsoleLog (''Stopped monitoring wallet: '' @ wallet)]))))"

definition stopMonitoring ::
  "env \<Rightarrow> address \<Rightarrow> transaction_monitor \<Rightarrow> transaction_monitor \<times> console_entry list" where
  "stopMonitoring e wallet m =
     (case stopMonitoring_try e wallet m of
        Inl (err, m') \<Rightarrow>
          (m', [ConsoleError (''Error stopping monitoring for wallet '' @ wallet @ '':'') err])
      | Inr r \<Rightarrow> r)"

text \<open>
  \<^verbatim>\<open>isWalletActive\<close>: \<^verbatim>\<open>!lastActivityTime\<close> holds for a missing entry and for
  the timestamp 0; the threshold is the literal 24 * 60 * 60 * 1000.
\<close>

definition isWalletActive :: "int \<Rightarrow> address \<Rightarrow> transaction_monitor \<Rightarrow> bool" where
  "isWalletActive now wallet m =
     (case lastActivity m wallet of
        None \<Rightarrow> False
      | Some lastActivityTime \<Rightarrow>
          if lastActivityTime = 0 then False
          else now - lastActivityTime < 24 * 60 * 60 * 1000)"

definition getMonitoredWallets :: "transaction_monitor \<Rightarrow> address list" where
  "getMonitoredWallets m = monitoredWallets m"

definition getActiveWallets :: "int \<Rightarrow> transaction_monitor \<Rightarrow> address list" where
  "getActiveWallets now m = filter (\<lambda>wallet. isWalletActive now wallet m) (getMonitoredWallets m)"




subsection \<open>Listen (blockchain/sub/listen.js)\<close>

text \<open>
  The events that TransactionMonitor emits as \<^verbatim>\<open>walletActivity\<close>: type, wallet,
  timestamp, slot, and the signature of a transaction or the lamports of the changed
  account.
\<close>

datatype activity_event =
    TransactionEvent address int nat string
  | AccountChangeEvent address int nat int

text \<open>
  \<open>emitted\<close> is the sequence of events passed to
  \<^verbatim>\<open>this.emit('significantActivity', event)\<close>.
\<close>

record listen =
  wallets :: "address list"
  transactionMonitor :: transaction_monitor
  emitted :: "activity_event list"

definition new_Listen :: listen where
  "new_Listen = \<lparr>wallets = [], transactionMonitor = new_TransactionMonitor, emitted = []\<rparr>"

definition isSignificantTransaction_try :: "env \<Rightarrow> string \<Rightarrow> js_error + bool" where
  "isSignificantTransaction_try e sig =
     (case getParsedTransaction e sig of
        Inl err \<Rightarrow> Inl err
      | Inr None \<Rightarrow> Inr False
      | Inr (Some tx) \<Rightarrow>
          if \<not> list_ex (\<lambda>programId. programId = TOKEN_PROGRAM_ID) (instructions tx)
          then Inr False
          else Inr (js_gt (calculateTransactionValue tx) 1.0))"

definition isSignificantTransaction :: "env \<Rightarrow> string \<Rightarrow> bool \<times> console_entry list" where
  "isSignificantTransaction e sig =
     (case isSignificantTransaction_try e sig of
        Inl err \<Rightarrow> (False, [ConsoleError ''Error checking transaction significance:'' err])
      | Inr b \<Rightarrow> (b, []))"

text \<open>
  \<^verbatim>\<open>isSignificantAccountChange\<close>: nothing in its try block can throw on an event
  built by \<^verbatim>\<open>handleAccountChange\<close>. For an integer number of lamports the
  comparison in double precision agrees with the one over the reals.
\<close>

definition isSignificantAccountChange :: "int \<Rightarrow> bool \<times> console_entry list" where
  "isSignificantAccountChange lamports =
     (\<bar>real_of_int lamports / 1000000000\<bar> > 1.0, [])"

text \<open>
  \<^verbatim>\<open>handleWalletActivity\<close>. Both classifiers catch what they raise, so the catch of
  this method is reached only from a listener of \<^verbatim>\<open>significantActivity\<close>, which is
  a downstream consumer and not part of the model.
\<close>

definition handleWalletActivity ::
  "env \<Rightarrow> activity_event \<Rightarrow> listen \<Rightarrow> listen \<times> console_entry list" where
  "handleWalletActivity e event s =
     (case event of
        TransactionEvent wallet timestamp slot sig \<Rightarrow>
          (case isSignificantTransaction e sig of
             (isSignificant, out) \<Rightarrow>
               if isSignificant then (s\<lparr>emitted := emitted s @ [event]\<rparr>, out) else (s, out))
      | AccountChangeEvent wallet timestamp slot lamports \<Rightarrow>
          (case isSignificantAccountChange lamports of
             (isSignificant, out) \<Rightarrow>
               if isSignificant then (s\<lparr>emitted := emitted s @ [event]\<rparr>, out) else (s, out)))"

text \<open>
  \<^verbatim>\<open>addWallet\<close> and \<^verbatim>\<open>removeWallet\<close>. \<^verbatim>\<open>isValidWallet\<close>,
  \<^verbatim>\<open>startMonitoring\<close> and \<^verbatim>\<open>stopMonitoring\<close> catch everything they raise and
  the Set operations do not throw, so the catch blocks of these two methods, which
  return false, have no path leading to them.
\<close>

definition addWallet ::
  "env \<Rightarrow> int \<Rightarrow> address \<Rightarrow> listen \<Rightarrow> bool \<times> listen \<times> console_entry list" where
  "addWallet e now wallet s =
     (if \<not> isValidWallet e wallet then
        (False, s, [ConsoleLog (''Invalid wallet address: '' @ wallet)])
      else
        (case startMonitoring e now wallet (transactionMonitor s) of
           (m, out) \<Rightarrow>
             (True, s\<lparr>wallets := Set_add wallet (wallets s), transactionMonitor := m\<rparr>, out)))"

definition removeWallet ::
  "env \<Rightarrow> address \<Rightarrow> listen \<Rightarrow> bool \<times> listen \<times> console_entry list" where
  "removeWallet e wallet s =
     (case stopMonitoring e wallet (transactionMonitor s) of
        (m, out) \<Rightarrow>
          (True, s\<lparr>wallets := Set_delete wallet (wallets s), transactionMonitor := m\<rparr>, out))"



subsection \<open>Concrete environments\<close>

text \<open>
  A chain on which every call succeeds. \<open>W2\<close> is an account owned by the token program;
  every other address is an account owned by the system program with 20,000,000 lamports
  (0.02 SOL). The token has three holder accounts, two of them of \<open>W1\<close>. The global scope
  has a \<^verbatim>\<open>SystemProgram\<close> whose \<^verbatim>\<open>programId\<close> is the system program.
\<close>

definition scenario_chain :: env where
  "scenario_chain =
     \<lparr>publicKeyAccepted = (\<lambda>a. True),
      getAccountInfo = (\<lambda>a.
        if a = ''W2'' then Inr (Some \<lparr>ai_owner = TOKEN_PROGRAM_ID, ai_lamports = 20000000\<rparr>)
        else Inr (Some \<lparr>ai_owner = SYSTEM_PROGRAM_ID, ai_lamports = 20000000\<rparr>)),
      getBalance = (\<lambda>a. Inr 20000000),
      getParsedTransaction = (\<lambda>sig. Inr None),
      getParsedProgramAccounts =
        (\<lambda>t. Inr [ParsedAccount ''W1'', ParsedAccount ''W2'', ParsedAccount ''W1'']),
      onAccountChangeError = (\<lambda>a. None),
      onLogsError = (\<lambda>a. None),
      removeAccountChangeListenerError = (\<lambda>h. None),
      removeOnLogsListenerError = (\<lambda>h. None),
      globalSystemProgram = Some SYSTEM_PROGRAM_ID\<rparr>"


text \<open>The same chain, on which removing an account-change listener throws.\<close>

definition release_fails :: env where
  "release_fails =
     scenario_chain\<lparr>removeAccountChangeListenerError :=
       (\<lambda>h. Some (ChainError ''accountUnsubscribe''))\<rparr>"

text \<open>The same chain, on which fetching a parsed transaction throws.\<close>

definition fetch_fails :: env where
  "fetch_fails =
     scenario_chain\<lparr>getParsedTransaction := (\<lambda>sig. Inl (ChainError ''getTransaction''))\<rparr>"


text \<open>
  The same chain seen from a process whose global scope has no \<^verbatim>\<open>SystemProgram\<close>,
  which is the case when nothing but the modules of this repository has run.
\<close>

definition unbound_global :: env where
  "unbound_global = scenario_chain\<lparr>globalSystemProgram := None\<rparr>"

text \<open>A monitor that watches \<open>W1\<close> since time 1000.\<close>

definition watching_W1 :: transaction_monitor where
  "watching_W1 = fst (startMonitoring scenario_chain 1000 ''W1'' new_TransactionMonitor)"

section \<open>Properties\<close>

subsection \<open>Auxiliary facts\<close>


lemma set_Set_delete: "set (Set_delete x xs) = set xs - {x}"
  by (auto simp: Set_delete_def)



lemma isValidWallet_unbound: "globalSystemProgram e = None \<Longrightarrow> \<not> isValidWallet e a"
  by (auto simp: isValidWallet_def isValidWallet_try_def split: sum.splits option.splits)


lemma scenario_chain_calls:
  "publicKeyAccepted scenario_chain a"
  "onAccountChangeError scenario_chain a = None"
  "onLogsError scenario_chain a = None"
  "removeAccountChangeListenerError scenario_chain h = None"
  "removeOnLogsListenerError scenario_chain h = None"
  by (simp_all add: scenario_chain_def)








subsection \<open>Adding a wallet\<close>









subsection \<open>Removing a wallet\<close>

lemma stopMonitoring_unknown:
  "subscriptions m w = None \<Longrightarrow> stopMonitoring e w m = (m, [])"
  by (simp add: stopMonitoring_def stopMonitoring_try_def)

lemma stopMonitoring_release_raises:
  assumes "subscriptions m w = Some ids"
    and "removeAccountChangeListenerError e (account ids) \<noteq> None \<or>
         removeOnLogsListenerError e (signature ids) \<noteq> None"
  shows "subscriptions (fst (stopMonitoring e w m)) = subscriptions m \<and>
         monitoredWallets (fst (stopMonitoring e w m)) = monitoredWallets m \<and>
         lastActivity (fst (stopMonitoring e w m)) = lastActivity m"
  using assms
  by (auto simp: stopMonitoring_def stopMonitoring_try_def removeAccountChangeListener_def
      removeOnLogsListener_def split: option.splits)

lemma watching_W1_fields:
  "monitoredWallets watching_W1 = [''W1'']"
  "subscriptions watching_W1 ''W1'' = Some \<lparr>account = 0, signature = 1\<rparr>"
  "lastActivity watching_W1 ''W1'' = Some 1000"
  "accountChangeListeners (connection watching_W1) = {0}"
  "logsListeners (connection watching_W1) = {1}"
  by (simp_all add: watching_W1_def startMonitoring_def startMonitoring_try_def
      onAccountChange_def onLogs_def scenario_chain_calls new_TransactionMonitor_def
      new_Connection_def Set_add_def)

text \<open>
  C4, as the code has it. \<^verbatim>\<open>removeWallet(A)\<close> returns true for every address. For
  an address without a registry entry it does nothing but delete A from the WatchSet: the
  registry and the connection are as before and nothing is logged.
\<close>

theorem removeWallet_returns_true:
  "fst (removeWallet e A s) = True \<and>
   (subscriptions (transactionMonitor s) A = None \<longrightarrow>
      removeWallet e A s = (True, s\<lparr>wallets := Set_delete A (wallets s)\<rparr>, []))"
  by (auto simp: removeWallet_def stopMonitoring_unknown split: prod.splits)

theorem removeWallet_returns_true_witness:
  "subscriptions (transactionMonitor new_Listen) ''W1'' = None \<and>
   fst (removeWallet scenario_chain ''W1'' new_Listen) = True \<and>
   removeWallet scenario_chain ''W1'' new_Listen = (True, new_Listen, [])"
proof -
  have none: "subscriptions (transactionMonitor new_Listen) ''W1'' = None"
    by (simp add: new_Listen_def new_TransactionMonitor_def)
  have same: "new_Listen\<lparr>wallets := Set_delete ''W1'' (wallets new_Listen)\<rparr> = new_Listen"
    by (simp add: new_Listen_def Set_delete_def)
  from removeWallet_returns_true [of scenario_chain "''W1''" new_Listen] none same
  show ?thesis by simp
qed

text \<open>
  C4 as stated fails: on a new Listen, where no address is monitored,
  \<^verbatim>\<open>removeWallet\<close> returns true.
\<close>

theorem removeWallet_unmonitored_counterexample:
  "''W1'' \<notin> set (getMonitoredWallets (transactionMonitor new_Listen)) \<and>
   ''W1'' \<notin> set (wallets new_Listen) \<and>
   fst (removeWallet scenario_chain ''W1'' new_Listen) \<noteq> False"
  by (simp add: removeWallet_def stopMonitoring_def stopMonitoring_try_def new_Listen_def
      new_TransactionMonitor_def getMonitoredWallets_def split: prod.splits)

text \<open>
  C5, as the code has it. For an address with a registry entry, when neither release
  raises, \<^verbatim>\<open>stopMonitoring\<close> releases the account-change handle and the log handle,
  and afterwards the address has no subscription entry, is not in the monitored set and
  has no last-activity entry.
\<close>

theorem stopMonitoring_releases:
  assumes "subscriptions m wallet = Some ids"
    and "removeAccountChangeListenerError e (account ids) = None"
    and "removeOnLogsListenerError e (signature ids) = None"
  shows "subscriptions (fst (stopMonitoring e wallet m)) wallet = None \<and>
         wallet \<notin> set (getMonitoredWallets (fst (stopMonitoring e wallet m))) \<and>
         lastActivity (fst (stopMonitoring e wallet m)) wallet = None \<and>
         account ids \<notin> accountChangeListeners (connection (fst (stopMonitoring e wallet m))) \<and>
         signature ids \<notin> logsListeners (connection (fst (stopMonitoring e wallet m)))"
  using assms
  by (simp add: stopMonitoring_def stopMonitoring_try_def removeAccountChangeListener_def
      removeOnLogsListener_def getMonitoredWallets_def set_Set_delete)

theorem stopMonitoring_releases_witness:
  "subscriptions watching_W1 ''W1'' = Some \<lparr>account = 0, signature = 1\<rparr> \<and>
   removeAccountChangeListenerError scenario_chain 0 = None \<and>
   removeOnLogsListenerError scenario_chain 1 = None \<and>
   subscriptions (fst (stopMonitoring scenario_chain ''W1'' watching_W1)) ''W1'' = None \<and>
   ''W1'' \<notin> set (getMonitoredWallets (fst (stopMonitoring scenario_chain ''W1'' watching_W1))) \<and>
   lastActivity (fst (stopMonitoring scenario_chain ''W1'' watching_W1)) ''W1'' = None \<and>
   0 \<notin> accountChangeListeners (connection (fst (stopMonitoring scenario_chain ''W1'' watching_W1))) \<and>
   1 \<notin> logsListeners (connection (fst (stopMonitoring scenario_chain ''W1'' watching_W1)))"
proof -
  have sub: "subscriptions watching_W1 ''W1'' = Some \<lparr>account = 0, signature = 1\<rparr>"
    by (rule watching_W1_fields)
  have acc: "removeAccountChangeListenerError scenario_chain
      (account \<lparr>account = 0, signature = 1\<rparr>) = None"
    by (rule scenario_chain_calls)
  have logs: "removeOnLogsListenerError scenario_chain
      (signature \<lparr>account = 0, signature = 1\<rparr>) = None"
    by (rule scenario_chain_calls)
  from stopMonitoring_releases [OF sub acc logs] sub acc logs
  show ?thesis by simp
qed

text \<open>
  C5 as stated fails: the release is not best-effort. When removing the account-change
  listener raises, \<^verbatim>\<open>stopMonitoring\<close> logs the error and stops there: the log
  listener is still registered and all three bookkeeping entries of the address remain.
\<close>

theorem stopMonitoring_not_best_effort_counterexample:
  "''W1'' \<in> set (getMonitoredWallets watching_W1) \<and>
   removeOnLogsListenerError release_fails 1 = None \<and>
   1 \<in> logsListeners (connection (fst (stopMonitoring release_fails ''W1'' watching_W1))) \<and>
   subscriptions (fst (stopMonitoring release_fails ''W1'' watching_W1)) ''W1'' =
     Some \<lparr>account = 0, signature = 1\<rparr> \<and>
   ''W1'' \<in> set (getMonitoredWallets (fst (stopMonitoring release_fails ''W1'' watching_W1))) \<and>
   lastActivity (fst (stopMonitoring release_fails ''W1'' watching_W1)) ''W1'' = Some 1000"
  by (simp add: stopMonitoring_def stopMonitoring_try_def removeAccountChangeListener_def
      release_fails_def scenario_chain_calls watching_W1_fields getMonitoredWallets_def)

subsection \<open>Activity\<close>

lemma isWalletActive_iff:
  "isWalletActive now wallet m \<longleftrightarrow>
     (\<exists>t. lastActivity m wallet = Some t \<and> t \<noteq> 0 \<and> now - t < 86400000)"
  by (auto simp: isWalletActive_def split: option.splits)

text \<open>
  C7, as the code has it. \<^verbatim>\<open>isWalletActive\<close> has no ttl parameter. For an address
  whose last-activity entry, if there is one, is not the timestamp 0, it returns true if
  and only if the entry exists and now minus the entry is strictly less than 24 hours
  (86,400,000 ms); with no entry it returns false.
\<close>

theorem isWalletActive_strict:
  assumes "lastActivity m wallet \<noteq> Some 0"
  shows "(isWalletActive now wallet m \<longleftrightarrow>
            (\<exists>t. lastActivity m wallet = Some t \<and> now - t < 24 * 60 * 60 * 1000)) \<and>
         (lastActivity m wallet = None \<longrightarrow> \<not> isWalletActive now wallet m)"
  using assms by (auto simp: isWalletActive_iff)

theorem isWalletActive_strict_witness:
  "lastActivity watching_W1 ''W1'' \<noteq> Some 0 \<and>
   lastActivity watching_W1 ''W1'' = Some 1000 \<and>
   (2000 - 1000 :: int) < 24 * 60 * 60 * 1000 \<and>
   isWalletActive 2000 ''W1'' watching_W1 \<and>
   lastActivity watching_W1 ''W9'' = None \<and>
   \<not> isWalletActive 2000 ''W9'' watching_W1"
proof -
  have e1: "lastActivity watching_W1 ''W1'' = Some 1000"
    by (rule watching_W1_fields)
  then have n1: "lastActivity watching_W1 ''W1'' \<noteq> Some 0" by simp
  have e9: "lastActivity watching_W1 ''W9'' = None"
    by (simp add: watching_W1_def startMonitoring_def startMonitoring_try_def
        onAccountChange_def onLogs_def scenario_chain_calls new_TransactionMonitor_def)
  then have n9: "lastActivity watching_W1 ''W9'' \<noteq> Some 0" by simp
  from isWalletActive_strict [OF n1, of 2000] isWalletActive_strict [OF n9, of 2000] e1 e9
  show ?thesis by simp
qed

text \<open>
  C7 as stated fails on the boundary: exactly 24 hours after the last activity the
  difference is within the ttl, and \<^verbatim>\<open>isWalletActive\<close> returns false.
\<close>

theorem isWalletActive_boundary_counterexample:
  "lastActivity watching_W1 ''W1'' = Some 1000 \<and>
   (86401000 - 1000 :: int) \<le> 24 * 60 * 60 * 1000 \<and>
   \<not> isWalletActive 86401000 ''W1'' watching_W1"
  by (simp add: isWalletActive_def watching_W1_fields)

subsection \<open>Significance\<close>

text \<open>
  C3. If classifying a transaction event raises an error, the verdict of
  \<^verbatim>\<open>isSignificantTransaction\<close> is false, and \<^verbatim>\<open>handleWalletActivity\<close>
  returns normally with the state unchanged, so nothing is emitted; the only trace is the
  line that \<^verbatim>\<open>isSignificantTransaction\<close> logs. Classifying an account change
  has no path that raises.
\<close>

theorem classification_fails_closed:
  assumes "isSignificantTransaction_try e sig = Inl err"
  shows "fst (isSignificantTransaction e sig) = False \<and>
         handleWalletActivity e (TransactionEvent wallet timestamp slot sig) s =
           (s, [ConsoleError ''Error checking transaction significance:'' err]) \<and>
         emitted (fst (handleWalletActivity e (TransactionEvent wallet timestamp slot sig) s)) =
           emitted s"
  using assms by (simp add: isSignificantTransaction_def handleWalletActivity_def)

theorem classification_fails_closed_witness:
  "isSignificantTransaction_try fetch_fails ''sig1'' = Inl (ChainError ''getTransaction'') \<and>
   fst (isSignificantTransaction fetch_fails ''sig1'') = False \<and>
   handleWalletActivity fetch_fails (TransactionEvent ''W1'' 1000 7 ''sig1'') new_Listen =
     (new_Listen,
      [ConsoleError ''Error checking transaction significance:'' (ChainError ''getTransaction'')]) \<and>
   emitted (fst (handleWalletActivity fetch_fails (TransactionEvent ''W1'' 1000 7 ''sig1'')
     new_Listen)) = []"
proof -
  have raise: "isSignificantTransaction_try fetch_fails ''sig1'' =
      Inl (ChainError ''getTransaction'')"
    by (simp add: isSignificantTransaction_try_def fetch_fails_def)
  have none: "emitted new_Listen = []"
    by (simp add: new_Listen_def)
  from classification_fails_closed [OF raise, of "''W1''" 1000 7 new_Listen] raise none
  show ?thesis by simp
qed

subsection \<open>The validity check\<close>

text \<open>
  C8. \<open>W1\<close> is an existing account owned by the system program with 20,000,000 lamports
  (0.02 SOL). In a process whose global scope has no \<^verbatim>\<open>SystemProgram\<close>, the
  comparison of the owner raises a ReferenceError, \<^verbatim>\<open>isValidWallet\<close> catches it and
  returns false, and \<^verbatim>\<open>addWallet(W1)\<close> returns false. \<open>W2\<close>, owned by the token
  program, is rejected as well and nothing is subscribed.
\<close>

theorem addWallet_system_account_rejected:
  "getAccountInfo unbound_global ''W1'' =
     Inr (Some \<lparr>ai_owner = SYSTEM_PROGRAM_ID, ai_lamports = 20000000\<rparr>) \<and>
   getBalance unbound_global ''W1'' = Inr 20000000 \<and>
   isValidWallet_try unbound_global ''W1'' = Inl (ReferenceError ''SystemProgram'') \<and>
   fst (addWallet unbound_global 1000 ''W1'' new_Listen) = False \<and>
   addWallet unbound_global 1000 ''W2'' new_Listen =
     (False, new_Listen, [ConsoleLog ''Invalid wallet address: W2''])"
  by (simp add: addWallet_def isValidWallet_def isValidWallet_try_def unbound_global_def
      scenario_chain_def)

subsection \<open>The holder scan\<close>












subsection \<open>The registry\<close>


end
